theory Spec2Isabelle
  imports Complex_Main
begin

section \<open>Arrays and images\<close>

text \<open>
  The program works on numpy arrays of 64-bit floats. Float arithmetic is idealised here
  as arithmetic on \<^typ>\<open>real\<close>: rounding is not modelled, and every statement below is
  about the exact values.

  A point and a row of a two-dimensional array are lists of reals; a two-dimensional
  array is the list of its rows. Since an array with no rows still has a number of
  columns in numpy, the operations that need the number of columns take it as an
  argument.
\<close>

type_synonym vec = "real list"
type_synonym matrix = "real list list"

text \<open>
  A three-dimensional array, as \<^verbatim>\<open>sitk.GetArrayFromImage\<close> returns it: its shape
  \<open>(nz, ny, nx)\<close> and the element at each position \<open>[z][y][x]\<close>.
\<close>

record ndarray3 =
  shape :: "nat \<times> nat \<times> nat"
  item :: "nat \<Rightarrow> nat \<Rightarrow> nat \<Rightarrow> real"

text \<open>
  What the program reads of a three-dimensional \<^verbatim>\<open>sitk.Image\<close>: the origin, the
  spacing, the direction cosines as the flat 9-tuple in row-major order, and the voxel
  array.
\<close>

record sitk_Image =
  GetOrigin :: "real \<times> real \<times> real"
  GetSpacing :: "real \<times> real \<times> real"
  GetDirection :: "real \<times> real \<times> real \<times> real \<times> real \<times> real \<times> real \<times> real \<times> real"
  GetArrayFromImage :: ndarray3

text \<open>\<^verbatim>\<open>np.array\<close> of a 3-tuple, and \<^verbatim>\<open>np.array(...).reshape(3, 3)\<close> of a 9-tuple.\<close>

fun np_array :: "real \<times> real \<times> real \<Rightarrow> vec" where
  "np_array (a, b, c) = [a, b, c]"

fun reshape_3_3 ::
  "real \<times> real \<times> real \<times> real \<times> real \<times> real \<times> real \<times> real \<times> real \<Rightarrow> matrix" where
  "reshape_3_3 (a, b, c, d, e, f, g, h, i) = [[a, b, c], [d, e, f], [g, h, i]]"

text \<open>The positions of an array of the given shape, in C (row-major) order.\<close>

fun ndindex :: "nat \<times> nat \<times> nat \<Rightarrow> (nat \<times> nat \<times> nat) list" where
  "ndindex (nz, ny, nx) = [(z, y, x). z \<leftarrow> [0..<nz], y \<leftarrow> [0..<ny], x \<leftarrow> [0..<nx]]"

text \<open>
  \<^verbatim>\<open>np.argwhere(mask > 0)\<close>: one row \<open>[z, y, x]\<close> for each position whose element is
  greater than zero, in C order.
\<close>

definition argwhere_gt0 :: "ndarray3 \<Rightarrow> nat list list" where
  "argwhere_gt0 a = [[z, y, x]. (z, y, x) \<leftarrow> ndindex (shape a), 0 < item a z y x]"

text \<open>\<^verbatim>\<open>a[:, ::-1]\<close>: every row reversed.\<close>

definition reverse_columns :: "'a list list \<Rightarrow> 'a list list" where
  "reverse_columns a = map rev a"

text \<open>\<^verbatim>\<open>a * v\<close> and \<^verbatim>\<open>v + a\<close> for a two-dimensional \<open>a\<close> and a vector \<open>v\<close>, broadcast over the rows.\<close>

definition mul_rows :: "nat list list \<Rightarrow> vec \<Rightarrow> matrix" where
  "mul_rows a v = map (\<lambda>row. map2 (\<lambda>i s. real i * s) row v) a"

definition add_rows :: "vec \<Rightarrow> matrix \<Rightarrow> matrix" where
  "add_rows v a = map (\<lambda>row. map2 (\<lambda>o' r. o' + r) v row) a"

text \<open>\<^verbatim>\<open>a.T\<close> for an array \<open>a\<close> with \<open>c\<close> columns.\<close>

definition T :: "nat \<Rightarrow> matrix \<Rightarrow> matrix" where
  "T c a = map (\<lambda>j. map (\<lambda>row. row ! j) a) [0..<c]"

text \<open>\<^verbatim>\<open>a @ b\<close> for an array \<open>b\<close> with \<open>c\<close> columns.\<close>

definition matmul :: "nat \<Rightarrow> matrix \<Rightarrow> matrix \<Rightarrow> matrix" where
  "matmul c a b =
     map (\<lambda>row. map (\<lambda>j. \<Sum>k\<leftarrow>[0..<length row]. row ! k * b ! k ! j) [0..<c]) a"

section \<open>The coordinate transform\<close>

definition convert_to_world_coordinates :: "sitk_Image \<Rightarrow> matrix" where
  "convert_to_world_coordinates img =
     (let origin = np_array (GetOrigin img);
          spacing = np_array (GetSpacing img);
          direction = reshape_3_3 (GetDirection img);
          mask = GetArrayFromImage img;
          voxel_indices = reverse_columns (argwhere_gt0 mask);
          scaled_indices = mul_rows voxel_indices spacing;
          n = length scaled_indices;
          world_points = add_rows origin (T n (matmul n direction (T 3 scaled_indices)))
      in world_points)"

text \<open>
  The transform as the specification words it, for one voxel index \<open>(i, j, k)\<close> in
  \<open>(x, y, z)\<close> order: \<open>origin + direction \<cdot> (spacing \<odot> index)\<close>.
\<close>

fun spec_world_point :: "sitk_Image \<Rightarrow> nat \<times> nat \<times> nat \<Rightarrow> vec" where
  "spec_world_point img (i, j, k) =
     (case (GetOrigin img, GetSpacing img, GetDirection img) of
        ((ox, oy, oz), (sx, sy, sz), (d00, d01, d02, d10, d11, d12, d20, d21, d22)) \<Rightarrow>
          [ox + (d00 * (sx * real i) + d01 * (sy * real j) + d02 * (sz * real k)),
           oy + (d10 * (sx * real i) + d11 * (sy * real j) + d12 * (sz * real k)),
           oz + (d20 * (sx * real i) + d21 * (sy * real j) + d22 * (sz * real k))])"

text \<open>The positions of an array whose element is greater than zero.\<close>

definition positive_voxels :: "ndarray3 \<Rightarrow> (nat \<times> nat \<times> nat) set" where
  "positive_voxels a =
     {(z, y, x). z < fst (shape a) \<and> y < fst (snd (shape a)) \<and> x < snd (snd (shape a))
        \<and> 0 < item a z y x}"

text \<open>C order on array positions: \<open>z\<close> varies slowest, \<open>x\<close> fastest.\<close>

fun c_order_less :: "nat \<times> nat \<times> nat \<Rightarrow> nat \<times> nat \<times> nat \<Rightarrow> bool" where
  "c_order_less (z, y, x) (z', y', x') = (z < z' \<or> (z = z' \<and> (y < y' \<or> (y = y' \<and> x < x'))))"

text \<open>
  The positions with a positive element in C order: what \<^const>\<open>argwhere_gt0\<close> has as its
  rows. Its set and its order are established below.
\<close>

definition positive_positions :: "ndarray3 \<Rightarrow> (nat \<times> nat \<times> nat) list" where
  "positive_positions a = filter (\<lambda>(z, y, x). 0 < item a z y x) (ndindex (shape a))"

section \<open>The distance evaluator\<close>

text \<open>The exception \<^verbatim>\<open>ndarray.min\<close> raises on an array of size zero.\<close>

datatype error = ValueError

text \<open>A distance as the nearest-neighbour query reports it: a number or \<^verbatim>\<open>inf\<close>.\<close>

datatype distance = Finite real | Infinity

fun fmin :: "distance \<Rightarrow> distance \<Rightarrow> distance" where
  "fmin (Finite a) (Finite b) = Finite (min a b)"
| "fmin (Finite a) Infinity = Finite a"
| "fmin Infinity d = d"

text \<open>The Euclidean (L2) distance of two points.\<close>

definition euclidean :: "vec \<Rightarrow> vec \<Rightarrow> real" where
  "euclidean a b = sqrt (sum_list (map2 (\<lambda>x y. (x - y)\<^sup>2) a b))"

text \<open>
  Modelled from the spec: the spatial index is scipy's \<^verbatim>\<open>cKDTree\<close>, a library outside the
  repository, of which the program uses \<^verbatim>\<open>cKDTree(points)\<close> and
  \<^verbatim>\<open>tree.query(x, workers=-1)\<close> with the defaults \<open>k = 1\<close> and \<open>p = 2\<close>. The
  specification (section 6, Spatial Index) gives its interface: \<^verbatim>\<open>query\<close> returns one
  nearest-neighbour distance per query point, the same whatever the number of workers. The
  index is modelled by the points it holds and the search by its result, the least
  Euclidean distance to a point of the index. The specification leaves the query on an
  index without points open; the model follows the library's documentation there: a
  missing neighbour is reported with an infinite distance.
\<close>

definition cKDTree :: "matrix \<Rightarrow> matrix" where
  "cKDTree data = data"

definition nearest :: "matrix \<Rightarrow> vec \<Rightarrow> distance" where
  "nearest tree x = fold fmin (map (\<lambda>p. Finite (euclidean x p)) tree) Infinity"

definition query :: "matrix \<Rightarrow> matrix \<Rightarrow> distance list" where
  "query tree x = map (nearest tree) x"

text \<open>\<^verbatim>\<open>distances.min()\<close>: numpy raises \<^verbatim>\<open>ValueError\<close> on an array of size zero.\<close>

definition ndarray_min :: "distance list \<Rightarrow> error + distance" where
  "ndarray_min a = (case a of [] \<Rightarrow> Inl ValueError | d # ds \<Rightarrow> Inr (fold fmin ds d))"

text \<open>
  An instance of the class: its two images and the entry \<^verbatim>\<open>minimum\<close> of its
  \<^verbatim>\<open>__dict__\<close>, where \<^verbatim>\<open>cached_property\<close> stores the value once the property's body
  has returned one.
\<close>

record Distances =
  img_1 :: sitk_Image
  img_2 :: sitk_Image
  minimum_dict :: "distance option"

text \<open>
  The state of the program: the instances created so far, each identified by its position;
  the cache of \<^verbatim>\<open>_compute_distances\<close>, which \<^verbatim>\<open>lru_cache(maxsize=1)\<close> attaches to the
  function, so that it is one entry shared by all instances and keyed by the instance; and,
  for the statements about recomputation, how many times the body of
  \<^verbatim>\<open>_compute_distances\<close> and the body of \<^verbatim>\<open>minimum\<close> have returned a value for each
  instance.
\<close>

record state =
  objects :: "Distances list"
  compute_distances_cache :: "(nat \<times> distance list) option"
  computed_distances :: "nat \<Rightarrow> nat"
  computed_minimum :: "nat \<Rightarrow> nat"

definition initial :: state where
  "initial = \<lparr>objects = [], compute_distances_cache = None,
     computed_distances = (\<lambda>_. 0), computed_minimum = (\<lambda>_. 0)\<rparr>"

text \<open>
  \<^verbatim>\<open>Distances.__init__\<close>, given the images that \<^verbatim>\<open>sitk.ReadImage\<close> returns for the two
  paths. It returns the new instance.
\<close>

definition Distances_init :: "sitk_Image \<Rightarrow> sitk_Image \<Rightarrow> state \<Rightarrow> nat \<times> state" where
  "Distances_init image_1 image_2 s =
     (length (objects s),
      s\<lparr>objects := objects s @ [\<lparr>img_1 = image_1, img_2 = image_2, minimum_dict = None\<rparr>]\<rparr>)"

text \<open>The body of \<^verbatim>\<open>_compute_distances\<close>.\<close>

definition compute_distances_body :: "Distances \<Rightarrow> distance list" where
  "compute_distances_body self =
     (let points_1 = convert_to_world_coordinates (img_1 self);
          points_2 = convert_to_world_coordinates (img_2 self);
          tree = cKDTree points_2;
          distances = query tree points_1
      in distances)"

text \<open>The lookup of \<^verbatim>\<open>lru_cache(maxsize=1)\<close>: a hit when the one entry has the key.\<close>

definition cache_get :: "(nat \<times> distance list) option \<Rightarrow> nat \<Rightarrow> distance list option" where
  "cache_get cache key =
     (case cache of
        None \<Rightarrow> None
      | Some (k, result) \<Rightarrow> if k = key then Some result else None)"

text \<open>
  \<^verbatim>\<open>_compute_distances\<close> with its decorator: on a hit the cached array, with no call of the
  body; on a miss the body's result, which replaces the entry of the cache.
\<close>

definition compute_distances :: "nat \<Rightarrow> state \<Rightarrow> distance list \<times> state" where
  "compute_distances self s =
     (case cache_get (compute_distances_cache s) self of
        Some result \<Rightarrow> (result, s)
      | None \<Rightarrow>
          (let result = compute_distances_body (objects s ! self)
           in (result,
               s\<lparr>compute_distances_cache := Some (self, result),
                 computed_distances := (computed_distances s)(self := computed_distances s self + 1)\<rparr>)))"

text \<open>
  The property \<^verbatim>\<open>minimum\<close> with its decorator \<^verbatim>\<open>cached_property\<close>: the value stored in
  the instance when there is one; otherwise the body runs, and its value is stored in the
  instance when it returns one. Nothing is stored when the body raises.
\<close>

definition minimum :: "nat \<Rightarrow> state \<Rightarrow> (error + distance) \<times> state" where
  "minimum self s =
     (case minimum_dict (objects s ! self) of
        Some val \<Rightarrow> (Inr val, s)
      | None \<Rightarrow>
          (let (distances, s') = compute_distances self s
           in case ndarray_min distances of
                Inl e \<Rightarrow> (Inl e, s')
              | Inr val \<Rightarrow>
                  (Inr val,
                   s'\<lparr>objects := (objects s')[self := (objects s' ! self)\<lparr>minimum_dict := Some val\<rparr>],
                      computed_minimum := (computed_minimum s')(self := computed_minimum s' self + 1)\<rparr>)))"

text \<open>
  The script at the end of the module, given the images read from its two files: it creates
  one instance and reads its \<^verbatim>\<open>minimum\<close>. The model returns the value the script prints,
  or the exception that ends it.
\<close>

definition main :: "sitk_Image \<Rightarrow> sitk_Image \<Rightarrow> error + distance" where
  "main image_1 image_2 =
     (let (distances, s) = Distances_init image_1 image_2 initial
      in fst (minimum distances s))"

text \<open>
  What a program can do with instances of the class: create one, read the \<^verbatim>\<open>minimum\<close> of
  one, and replace the first or the second image of one. An event on an instance that does
  not exist changes nothing.
\<close>

datatype event =
  New sitk_Image sitk_Image
| Access nat
| SetImg1 nat sitk_Image
| SetImg2 nat sitk_Image

fun step :: "state \<Rightarrow> event \<Rightarrow> state" where
  "step s (New image_1 image_2) = snd (Distances_init image_1 image_2 s)"
| "step s (Access self) = (if self < length (objects s) then snd (minimum self s) else s)"
| "step s (SetImg1 self img) =
     (if self < length (objects s)
      then s\<lparr>objects := (objects s)[self := (objects s ! self)\<lparr>img_1 := img\<rparr>]\<rparr> else s)"
| "step s (SetImg2 self img) =
     (if self < length (objects s)
      then s\<lparr>objects := (objects s)[self := (objects s ! self)\<lparr>img_2 := img\<rparr>]\<rparr> else s)"

definition run :: "state \<Rightarrow> event list \<Rightarrow> state" where
  "run s evs = foldl step s evs"

section \<open>The specification's notions\<close>

text \<open>
  The brute-force minimum of the specification: the least \<open>\<parallel>a - b\<parallel>\<close> over all pairs of a
  point \<open>a\<close> of the first cloud and a point \<open>b\<close> of the second.
\<close>

definition spec_pairwise_minimum :: "matrix \<Rightarrow> matrix \<Rightarrow> real" where
  "spec_pairwise_minimum A B = Min ((\<lambda>(a, b). euclidean a b) ` (set A \<times> set B))"

text \<open>
  Mask growth: the second image has the geometry and the shape of the first, and every
  voxel that is positive in the first is positive in the second.
\<close>

definition mask_grows :: "sitk_Image \<Rightarrow> sitk_Image \<Rightarrow> bool" where
  "mask_grows img img' \<longleftrightarrow>
     GetOrigin img' = GetOrigin img \<and> GetSpacing img' = GetSpacing img \<and>
     GetDirection img' = GetDirection img \<and>
     shape (GetArrayFromImage img') = shape (GetArrayFromImage img) \<and>
     positive_voxels (GetArrayFromImage img) \<subseteq> positive_voxels (GetArrayFromImage img')"

section \<open>Synthetic images\<close>

text \<open>
  A mask of the given shape that is 1 at the listed positions \<open>(z, y, x)\<close> and 0 elsewhere,
  and the image with that mask, unit spacing, origin 0 and the identity as direction.
\<close>

definition synthetic_mask :: "nat \<times> nat \<times> nat \<Rightarrow> (nat \<times> nat \<times> nat) list \<Rightarrow> ndarray3" where
  "synthetic_mask sh ps = \<lparr>shape = sh, item = (\<lambda>z y x. if (z, y, x) \<in> set ps then 1 else 0)\<rparr>"

definition synthetic_image :: "nat \<times> nat \<times> nat \<Rightarrow> (nat \<times> nat \<times> nat) list \<Rightarrow> sitk_Image" where
  "synthetic_image sh ps =
     \<lparr>GetOrigin = (0, 0, 0), GetSpacing = (1, 1, 1),
      GetDirection = (1, 0, 0, 0, 1, 0, 0, 0, 1),
      GetArrayFromImage = synthetic_mask sh ps\<rparr>"

section \<open>States of an instance\<close>

text \<open>
  An instance whose \<^verbatim>\<open>minimum\<close> has not been read: nothing is stored in it, nothing has
  been computed for it, and the cache of \<^verbatim>\<open>_compute_distances\<close> has no entry for it.
\<close>

definition not_accessed :: "nat \<Rightarrow> state \<Rightarrow> bool" where
  "not_accessed i s \<longleftrightarrow>
     (i < length (objects s) \<longrightarrow> minimum_dict (objects s ! i) = None) \<and>
     computed_distances s i = 0 \<and> computed_minimum s i = 0 \<and>
     cache_get (compute_distances_cache s) i = None"




section \<open>Properties of the coordinate transform\<close>

lemma upt_0_3: "[0..<3] = [0, 1, 2::nat]"
  by code_simp

lemma ndindex_product:
  "ndindex (nz, ny, nx) = List.product [0..<nz] (List.product [0..<ny] [0..<nx])"
  by (simp add: List.product_concat_map map_concat comp_def)

lemma concat_map_if_filter:
  "concat (map (\<lambda>p. if P p then [f p] else []) xs) = map f (filter P xs)"
  by (induction xs) auto

lemma argwhere_gt0_positions:
  "argwhere_gt0 a = map (\<lambda>(z, y, x). [z, y, x]) (positive_positions a)"
proof -
  have "(\<lambda>p. case p of (z, y, x) \<Rightarrow> if 0 < item a z y x then [[z, y, x]] else [])
      = (\<lambda>p. if (case p of (z, y, x) \<Rightarrow> 0 < item a z y x)
              then [case p of (z, y, x) \<Rightarrow> [z, y, x]] else [])"
    by (auto simp: fun_eq_iff)
  then show ?thesis
    unfolding argwhere_gt0_def positive_positions_def
    by (simp add: concat_map_if_filter)
qed

text \<open>
  The two transpositions around the matrix product cancel: row \<open>n\<close> of the result is the
  direction matrix applied to row \<open>n\<close> of the scaled indices.
\<close>

lemma T_matmul_T:
  assumes "\<forall>r \<in> set d. length r = 3"
  shows "T (length s) (matmul (length s) d (T 3 s))
       = map (\<lambda>row. map (\<lambda>r. r ! 0 * row ! 0 + r ! 1 * row ! 1 + r ! 2 * row ! 2) d) s"
proof (rule nth_equalityI)
  show "length (T (length s) (matmul (length s) d (T 3 s)))
      = length (map (\<lambda>row. map (\<lambda>r. r ! 0 * row ! 0 + r ! 1 * row ! 1 + r ! 2 * row ! 2) d) s)"
    by (simp add: T_def)
next
  fix i assume "i < length (T (length s) (matmul (length s) d (T 3 s)))"
  then have i: "i < length s" by (simp add: T_def)
  have "map (\<lambda>row. row ! i) (matmul (length s) d (T 3 s))
      = map (\<lambda>r. r ! 0 * s ! i ! 0 + r ! 1 * s ! i ! 1 + r ! 2 * s ! i ! 2) d"
    using assms i by (simp add: matmul_def T_def upt_0_3)
  then show "T (length s) (matmul (length s) d (T 3 s)) ! i =
      map (\<lambda>row. map (\<lambda>r. r ! 0 * row ! 0 + r ! 1 * row ! 1 + r ! 2 * row ! 2) d) s ! i"
    using i by (simp add: T_def)
qed

lemma convert_positions:
  "convert_to_world_coordinates img =
     map (\<lambda>(z, y, x). spec_world_point img (x, y, z))
       (positive_positions (GetArrayFromImage img))"
proof -
  obtain ox oy oz where o: "GetOrigin img = (ox, oy, oz)" by (metis surj_pair)
  obtain sx sy sz where s: "GetSpacing img = (sx, sy, sz)" by (metis surj_pair)
  obtain d00 d01 d02 d10 d11 d12 d20 d21 d22
    where d: "GetDirection img = (d00, d01, d02, d10, d11, d12, d20, d21, d22)"
    by (metis surj_pair)
  define scaled where
    "scaled = mul_rows (reverse_columns (argwhere_gt0 (GetArrayFromImage img)))
       (np_array (GetSpacing img))"
  have len: "\<forall>r \<in> set (reshape_3_3 (GetDirection img)). length r = 3"
    by (simp add: d)
  have "convert_to_world_coordinates img =
      add_rows (np_array (GetOrigin img))
        (T (length scaled) (matmul (length scaled) (reshape_3_3 (GetDirection img)) (T 3 scaled)))"
    by (simp add: convert_to_world_coordinates_def Let_def scaled_def)
  also have "\<dots> = add_rows (np_array (GetOrigin img))
      (map (\<lambda>row. map (\<lambda>r. r ! 0 * row ! 0 + r ! 1 * row ! 1 + r ! 2 * row ! 2)
         (reshape_3_3 (GetDirection img))) scaled)"
    by (simp only: T_matmul_T [OF len])
  also have "\<dots> = map (\<lambda>(z, y, x). spec_world_point img (x, y, z))
      (positive_positions (GetArrayFromImage img))"
    by (simp add: scaled_def o s d add_rows_def mul_rows_def reverse_columns_def
        argwhere_gt0_positions split_def algebra_simps)
  finally show ?thesis .
qed

lemma set_ndindex:
  "set (ndindex (nz, ny, nx)) = {(z, y, x). z < nz \<and> y < ny \<and> x < nx}"
  unfolding ndindex_product by auto

lemma distinct_ndindex: "distinct (ndindex s)"
proof -
  obtain nz ny nx where s: "s = (nz, ny, nx)" by (metis surj_pair)
  show ?thesis
    unfolding s ndindex_product by (intro distinct_product distinct_upt)
qed

lemma sorted_wrt_product:
  assumes "sorted_wrt R xs" and "sorted_wrt S ys"
  shows "sorted_wrt (\<lambda>(a, b) (a', b'). R a a' \<or> (a = a' \<and> S b b')) (List.product xs ys)"
  using assms
proof (induction xs)
  case Nil
  then show ?case by simp
next
  case (Cons a xs)
  have "sorted_wrt (\<lambda>x y. R a a \<or> S x y) ys"
    using Cons.prems(2) by (rule sorted_wrt_mono_rel [rotated]) simp
  with Cons show ?case
    by (auto simp: sorted_wrt_append sorted_wrt_map)
qed

lemma sorted_ndindex: "sorted_wrt c_order_less (ndindex s)"
proof -
  obtain nz ny nx where s: "s = (nz, ny, nx)" by (metis surj_pair)
  have yx: "sorted_wrt (\<lambda>(y, x) (y', x'). y < y' \<or> (y = y' \<and> x < x'))
      (List.product [0..<ny] [0..<nx])"
    by (intro sorted_wrt_product) simp_all
  have "sorted_wrt (\<lambda>(z, p) (z', p'). z < z' \<or>
      (z = z' \<and> (case p of (y, x) \<Rightarrow> \<lambda>(y', x'). y < y' \<or> (y = y' \<and> x < x')) p'))
      (List.product [0..<nz] (List.product [0..<ny] [0..<nx]))"
    by (intro sorted_wrt_product yx) simp
  moreover have "(\<lambda>(z, p) (z', p'). z < z' \<or>
      (z = z' \<and> (case p of (y, x) \<Rightarrow> \<lambda>(y', x'). y < y' \<or> (y = y' \<and> x < x')) p'))
      = c_order_less"
    by (auto simp: fun_eq_iff)
  ultimately show ?thesis
    unfolding s ndindex_product by simp
qed

lemma set_positive_positions: "set (positive_positions a) = positive_voxels a"
proof -
  obtain nz ny nx where s: "shape a = (nz, ny, nx)" by (metis surj_pair)
  show ?thesis
    unfolding positive_positions_def positive_voxels_def s set_filter set_ndindex
    by auto
qed

lemma distinct_positive_positions: "distinct (positive_positions a)"
  unfolding positive_positions_def by (intro distinct_filter distinct_ndindex)

lemma sorted_positive_positions: "sorted_wrt c_order_less (positive_positions a)"
  unfolding positive_positions_def by (intro sorted_wrt_filter sorted_ndindex)

lemma length_positive_positions: "length (positive_positions a) = card (positive_voxels a)"
  using distinct_card [OF distinct_positive_positions, of a]
  by (simp add: set_positive_positions)

lemma distinct_set_singleton:
  assumes "distinct xs" and "set xs = {a}"
  shows "xs = [a]"
proof (cases xs)
  case Nil
  with assms show ?thesis by simp
next
  case (Cons x ys)
  with assms have "x = a" by auto
  moreover have "ys = []"
  proof (cases ys)
    case (Cons y zs)
    with assms \<open>xs = x # ys\<close> \<open>x = a\<close> show ?thesis by auto
  qed simp
  ultimately show ?thesis using Cons by simp
qed

text \<open>
  Claim C2. For every image, \<^const>\<open>convert_to_world_coordinates\<close> returns one point for each
  voxel whose value is greater than zero and no other: the list of their positions has
  exactly the positive voxels as its elements and is strictly increasing in C order, the
  traversal order of the array, so the length of the result is the number of positive
  voxels. The point of the voxel at array position \<open>(z, y, x)\<close> is
  \<open>origin + direction \<cdot> (spacing \<odot> (x, y, z))\<close>, the index being reversed from the array's
  order to \<open>(x, y, z)\<close>.
\<close>

theorem convert_to_world_coordinates_points:
  "convert_to_world_coordinates img =
     map (\<lambda>(z, y, x). spec_world_point img (x, y, z))
       (positive_positions (GetArrayFromImage img))
   \<and> set (positive_positions (GetArrayFromImage img)) = positive_voxels (GetArrayFromImage img)
   \<and> sorted_wrt c_order_less (positive_positions (GetArrayFromImage img))
   \<and> length (convert_to_world_coordinates img) = card (positive_voxels (GetArrayFromImage img))"
  by (simp add: convert_positions set_positive_positions sorted_positive_positions
      length_positive_positions)

text \<open>
  An instance: spacing \<open>(2, 2, 2)\<close>, origin \<open>(10, 0, 0)\<close>, the identity as direction and
  one positive voxel at index \<open>(1, 0, 0)\<close>, that is, array position \<open>[0][0][1]\<close>. The
  point is \<open>(12, 0, 0)\<close>.
\<close>

theorem convert_to_world_coordinates_points_witness:
  "convert_to_world_coordinates
     \<lparr>GetOrigin = (10, 0, 0), GetSpacing = (2, 2, 2),
      GetDirection = (1, 0, 0, 0, 1, 0, 0, 0, 1),
      GetArrayFromImage = synthetic_mask (1, 1, 2) [(0, 0, 1)]\<rparr> = [[12, 0, 0]]
   \<and> card (positive_voxels (synthetic_mask (1, 1, 2) [(0, 0, 1)])) = 1"
proof -
  let ?img = "\<lparr>GetOrigin = (10, 0, 0), GetSpacing = (2, 2, 2),
      GetDirection = (1, 0, 0, 0, 1, 0, 0, 0, 1),
      GetArrayFromImage = synthetic_mask (1, 1, 2) [(0, 0, 1)]\<rparr>"
  note c = convert_to_world_coordinates_points [of ?img]
  have p: "positive_positions (GetArrayFromImage ?img) = [(0, 0, 1)]"
    by (simp add: positive_positions_def synthetic_mask_def numeral_2_eq_2)
  from p c have 1: "convert_to_world_coordinates ?img = [[12, 0, 0]]"
    by simp
  from c have "length (convert_to_world_coordinates ?img)
      = card (positive_voxels (GetArrayFromImage ?img))"
    by blast
  with 1 show ?thesis by simp
qed

text \<open>
  Claim C6. For an image whose only positive voxel is at index \<open>(i, j, k)\<close>, that is, at
  array position \<open>[k][j][i]\<close>, with unit spacing, origin 0 and the identity as direction,
  \<^const>\<open>convert_to_world_coordinates\<close> returns exactly one point, \<open>(i, j, k)\<close>.
\<close>

theorem single_voxel_world_point:
  assumes "shape (GetArrayFromImage img) = (nz, ny, nx)"
    and "k < nz" and "j < ny" and "i < nx"
    and "0 < item (GetArrayFromImage img) k j i"
    and "\<And>z y x. z < nz \<Longrightarrow> y < ny \<Longrightarrow> x < nx \<Longrightarrow> (z, y, x) \<noteq> (k, j, i) \<Longrightarrow>
      \<not> 0 < item (GetArrayFromImage img) z y x"
    and "GetSpacing img = (1, 1, 1)"
    and "GetOrigin img = (0, 0, 0)"
    and "GetDirection img = (1, 0, 0, 0, 1, 0, 0, 0, 1)"
  shows "convert_to_world_coordinates img = [[real i, real j, real k]]"
proof -
  have "positive_voxels (GetArrayFromImage img) = {(k, j, i)}"
    using assms(1-6) by (auto simp: positive_voxels_def)
  then have "positive_positions (GetArrayFromImage img) = [(k, j, i)]"
    by (intro distinct_set_singleton distinct_positive_positions)
      (simp add: set_positive_positions)
  then show ?thesis
    by (simp add: convert_positions assms(7-9))
qed

theorem single_voxel_world_point_witness:
  "convert_to_world_coordinates (synthetic_image (2, 2, 2) [(1, 0, 1)]) = [[1, 0, 1]]"
  using single_voxel_world_point [of "synthetic_image (2, 2, 2) [(1, 0, 1)]" 2 2 2 1 0 1]
  by (simp add: synthetic_image_def synthetic_mask_def)

text \<open>
  Claim C7. For every image in which no voxel has a value greater than zero,
  \<^const>\<open>convert_to_world_coordinates\<close> returns the empty point cloud, of length zero.
\<close>

theorem all_zero_mask_empty_cloud:
  assumes "\<And>z y x. z < fst (shape (GetArrayFromImage img)) \<Longrightarrow>
      y < fst (snd (shape (GetArrayFromImage img))) \<Longrightarrow>
      x < snd (snd (shape (GetArrayFromImage img))) \<Longrightarrow>
      \<not> 0 < item (GetArrayFromImage img) z y x"
  shows "convert_to_world_coordinates img = [] \<and> length (convert_to_world_coordinates img) = 0"
proof -
  have "positive_voxels (GetArrayFromImage img) = {}"
    using assms by (auto simp: positive_voxels_def)
  then have "positive_positions (GetArrayFromImage img) = []"
    by (simp add: set_positive_positions [symmetric])
  then show ?thesis by (simp add: convert_positions)
qed

theorem all_zero_mask_empty_cloud_witness:
  "convert_to_world_coordinates (synthetic_image (2, 2, 2) []) = []"
  using all_zero_mask_empty_cloud [of "synthetic_image (2, 2, 2) []"]
  by (simp add: synthetic_image_def synthetic_mask_def)

section \<open>Properties of the distance evaluator\<close>

lemma fold_fmin_Finite:
  "fold fmin (map (\<lambda>p. Finite (f p)) ps) (Finite m) = Finite (Min (insert m (f ` set ps)))"
proof (induction ps arbitrary: m)
  case Nil
  then show ?case by simp
next
  case (Cons p ps)
  have "Min (insert (min (f p) m) (f ` set ps)) = Min (insert m (insert (f p) (f ` set ps)))"
    by (cases "set ps = {}") (simp_all add: min.commute min.left_commute)
  with Cons show ?case by simp
qed

lemma nearest_Nil: "nearest [] x = Infinity"
  by (simp add: nearest_def)

lemma nearest_nonempty:
  assumes "tree \<noteq> []"
  shows "nearest tree x = Finite (Min (euclidean x ` set tree))"
proof -
  from assms obtain p ps where t: "tree = p # ps" by (cases tree) auto
  show ?thesis
    unfolding t nearest_def by (simp add: fold_fmin_Finite)
qed

lemma ndarray_min_Finite:
  assumes "A \<noteq> []"
  shows "ndarray_min (map (\<lambda>a. Finite (g a)) A) = Inr (Finite (Min (g ` set A)))"
proof -
  from assms obtain a as where A: "A = a # as" by (cases A) auto
  show ?thesis
    unfolding A ndarray_min_def by (simp add: fold_fmin_Finite)
qed

lemma Min_Min_pairs:
  assumes "finite A" "A \<noteq> {}" "finite B" "B \<noteq> {}"
  shows "Min ((\<lambda>a. Min (f a ` B)) ` A) = Min ((\<lambda>(a, b). f a b) ` (A \<times> B))"
proof (rule sym, rule Min_eqI)
  show "finite ((\<lambda>(a, b). f a b) ` (A \<times> B))" using assms by simp
next
  fix y assume "y \<in> (\<lambda>(a, b). f a b) ` (A \<times> B)"
  then obtain a b where ab: "a \<in> A" "b \<in> B" "y = f a b" by auto
  have "Min ((\<lambda>a. Min (f a ` B)) ` A) \<le> Min (f a ` B)"
    using assms ab by (intro Min_le) auto
  also have "\<dots> \<le> f a b"
    using assms ab by (intro Min_le) auto
  finally show "Min ((\<lambda>a. Min (f a ` B)) ` A) \<le> y" using ab by simp
next
  have "Min ((\<lambda>a. Min (f a ` B)) ` A) \<in> (\<lambda>a. Min (f a ` B)) ` A"
    using assms by (intro Min_in) auto
  then obtain a where a: "a \<in> A" "Min ((\<lambda>a. Min (f a ` B)) ` A) = Min (f a ` B)" by auto
  have "Min (f a ` B) \<in> f a ` B"
    using assms by (intro Min_in) auto
  then obtain b where "b \<in> B" "Min (f a ` B) = f a b" by auto
  with a show "Min ((\<lambda>a. Min (f a ` B)) ` A) \<in> (\<lambda>(a, b). f a b) ` (A \<times> B)"
    by force
qed

lemma main_eq:
  "main image_1 image_2 =
     ndarray_min (query (convert_to_world_coordinates image_2) (convert_to_world_coordinates image_1))"
  by (simp add: main_def Distances_init_def initial_def minimum_def compute_distances_def
      cache_get_def compute_distances_body_def cKDTree_def Let_def split: sum.splits)

lemma query_nonempty:
  assumes "B \<noteq> []"
  shows "query B A = map (\<lambda>a. Finite (Min (euclidean a ` set B))) A"
  using assms by (simp add: query_def nearest_nonempty)

lemma query_min_nonempty:
  assumes "A \<noteq> []" and "B \<noteq> []"
  shows "ndarray_min (query B A) = Inr (Finite (spec_pairwise_minimum A B))"
proof -
  have "ndarray_min (query B A) = Inr (Finite (Min ((\<lambda>a. Min (euclidean a ` set B)) ` set A)))"
    using assms by (simp add: query_nonempty ndarray_min_Finite)
  also have "Min ((\<lambda>a. Min (euclidean a ` set B)) ` set A)
      = Min ((\<lambda>(a, b). euclidean a b) ` (set A \<times> set B))"
    using assms by (intro Min_Min_pairs) auto
  finally show ?thesis by (simp add: spec_pairwise_minimum_def)
qed

lemma convert_Nil_iff:
  "convert_to_world_coordinates img = [] \<longleftrightarrow> positive_voxels (GetArrayFromImage img) = {}"
  by (simp add: convert_positions set_positive_positions [symmetric])

lemma set_convert:
  "set (convert_to_world_coordinates img) =
     (\<lambda>(z, y, x). spec_world_point img (x, y, z)) ` positive_voxels (GetArrayFromImage img)"
  by (simp add: convert_positions set_positive_positions)


lemma main_nonempty:
  assumes "positive_voxels (GetArrayFromImage image_1) \<noteq> {}"
    and "positive_voxels (GetArrayFromImage image_2) \<noteq> {}"
  shows "main image_1 image_2 =
     Inr (Finite (spec_pairwise_minimum (convert_to_world_coordinates image_1)
       (convert_to_world_coordinates image_2)))"
  using assms by (simp add: main_eq query_min_nonempty convert_Nil_iff)

lemma euclidean_commute: "euclidean a b = euclidean b a"
proof -
  have "map2 (\<lambda>x y. (x - y)\<^sup>2) a b = map2 (\<lambda>x y. (x - y)\<^sup>2) b a"
  proof (induction a arbitrary: b)
    case Nil
    then show ?case by simp
  next
    case (Cons x a)
    then show ?case by (cases b) (simp_all add: power2_commute)
  qed
  then show ?thesis by (simp add: euclidean_def)
qed

lemma euclidean_nonneg: "0 \<le> euclidean a b"
  unfolding euclidean_def
  by (intro real_sqrt_ge_zero sum_list_nonneg) (auto simp: in_set_zip)

lemma euclidean_self: "euclidean a a = 0"
proof -
  have "sum_list (map2 (\<lambda>x y. (x - y)\<^sup>2) a a) = 0"
    by (induction a) simp_all
  then show ?thesis by (simp add: euclidean_def)
qed

lemma spec_pairwise_minimum_commute:
  "spec_pairwise_minimum A B = spec_pairwise_minimum B A"
proof -
  have "(\<lambda>(a, b). euclidean a b) ` (X \<times> Y) \<subseteq> (\<lambda>(a, b). euclidean a b) ` (Y \<times> X)" for X Y
  proof
    fix d assume "d \<in> (\<lambda>(a, b). euclidean a b) ` (X \<times> Y)"
    then obtain a b where "a \<in> X" "b \<in> Y" "d = euclidean a b" by auto
    then have "(b, a) \<in> Y \<times> X" "d = (\<lambda>(a, b). euclidean a b) (b, a)"
      by (simp_all add: euclidean_commute)
    then show "d \<in> (\<lambda>(a, b). euclidean a b) ` (Y \<times> X)" by (rule image_eqI [rotated])
  qed
  then have "(\<lambda>(a, b). euclidean a b) ` (set A \<times> set B)
      = (\<lambda>(a, b). euclidean a b) ` (set B \<times> set A)"
    by (intro equalityI)
  then show ?thesis by (simp add: spec_pairwise_minimum_def)
qed

lemma spec_pairwise_minimum_nonneg:
  assumes "A \<noteq> []" and "B \<noteq> []"
  shows "0 \<le> spec_pairwise_minimum A B"
  unfolding spec_pairwise_minimum_def
  using assms by (subst Min_ge_iff) (auto simp: euclidean_nonneg)

lemma spec_pairwise_minimum_self:
  assumes "A \<noteq> []"
  shows "spec_pairwise_minimum A A = 0"
  unfolding spec_pairwise_minimum_def
proof (rule Min_eqI)
  show "finite ((\<lambda>(a, b). euclidean a b) ` (set A \<times> set A))" by simp
next
  fix y assume "y \<in> (\<lambda>(a, b). euclidean a b) ` (set A \<times> set A)"
  then show "0 \<le> y" by (auto simp: euclidean_nonneg)
next
  from assms obtain a where "a \<in> set A" by (cases A) auto
  then have "euclidean a a \<in> (\<lambda>(a, b). euclidean a b) ` (set A \<times> set A)" by force
  then show "0 \<in> (\<lambda>(a, b). euclidean a b) ` (set A \<times> set A)"
    by (simp add: euclidean_self)
qed

lemma spec_pairwise_minimum_antimono:
  assumes "A \<noteq> []" and "B \<noteq> []" and "set A \<subseteq> set A'" and "set B \<subseteq> set B'"
  shows "spec_pairwise_minimum A' B' \<le> spec_pairwise_minimum A B"
  unfolding spec_pairwise_minimum_def
  using assms by (intro Min_antimono image_mono Sigma_mono) auto

lemma mask_grows_subset:
  assumes "mask_grows img img'"
  shows "set (convert_to_world_coordinates img) \<subseteq> set (convert_to_world_coordinates img')"
proof -
  have eq: "spec_world_point img' = spec_world_point img"
    using assms by (auto simp: fun_eq_iff mask_grows_def)
  have "positive_voxels (GetArrayFromImage img) \<subseteq> positive_voxels (GetArrayFromImage img')"
    using assms by (simp add: mask_grows_def)
  then show ?thesis
    unfolding set_convert eq by (rule image_mono)
qed

lemma fold_fmin_Infinity: "fold fmin (map (\<lambda>_. Infinity) as) Infinity = Infinity"
  by (induction as) simp_all

lemma main_first_empty:
  assumes "positive_voxels (GetArrayFromImage image_1) = {}"
  shows "main image_1 image_2 = Inl ValueError"
  using assms by (simp add: main_eq convert_Nil_iff [symmetric] query_def ndarray_min_def)

lemma main_second_empty:
  assumes "positive_voxels (GetArrayFromImage image_1) \<noteq> {}"
    and "positive_voxels (GetArrayFromImage image_2) = {}"
  shows "main image_1 image_2 = Inr Infinity"
proof -
  from assms obtain a as where A: "convert_to_world_coordinates image_1 = a # as"
    by (cases "convert_to_world_coordinates image_1") (auto simp: convert_Nil_iff)
  have B: "convert_to_world_coordinates image_2 = []"
    using assms by (simp add: convert_Nil_iff)
  have "query [] (a # as) = map (\<lambda>_. Infinity) (a # as)"
    by (simp add: query_def nearest_Nil)
  then show ?thesis
    by (simp add: main_eq A B ndarray_min_def fold_fmin_Infinity)
qed

subsection \<open>Synthetic images\<close>

lemma positive_voxels_synthetic:
  "positive_voxels (GetArrayFromImage (synthetic_image (nz, ny, nx) ps))
     = {(z, y, x). z < nz \<and> y < ny \<and> x < nx \<and> (z, y, x) \<in> set ps}"
  by (auto simp: positive_voxels_def synthetic_image_def synthetic_mask_def)

lemma positive_voxels_synthetic_nonempty:
  assumes "(z, y, x) \<in> set ps" and "z < nz" and "y < ny" and "x < nx"
  shows "positive_voxels (GetArrayFromImage (synthetic_image (nz, ny, nx) ps)) \<noteq> {}"
  using assms unfolding positive_voxels_synthetic by blast

lemma convert_synthetic_1_1_2:
  "convert_to_world_coordinates (synthetic_image (Suc 0, Suc 0, 2) ps)
     = map (\<lambda>(z, y, x). [real x, real y, real z])
         (filter (\<lambda>p. p \<in> set ps) [(0, 0, 0), (0, 0, 1)])"
  by (simp add: convert_positions positive_positions_def synthetic_image_def synthetic_mask_def
      numeral_2_eq_2)

lemma main_synthetic_0_1:
  "main (synthetic_image (1, 1, 2) [(0, 0, 0)]) (synthetic_image (1, 1, 2) [(0, 0, 1)])
     = Inr (Finite 1)"
  by (simp add: main_eq convert_synthetic_1_1_2 query_def nearest_def ndarray_min_def
      euclidean_def)

lemma main_synthetic_01_1:
  "main (synthetic_image (1, 1, 2) [(0, 0, 0), (0, 0, 1)]) (synthetic_image (1, 1, 2) [(0, 0, 1)])
     = Inr (Finite 0)"
  by (simp add: main_eq convert_synthetic_1_1_2 query_def nearest_def ndarray_min_def
      euclidean_def)


subsection \<open>The value of the minimum\<close>

text \<open>
  Claim C1. For every pair of images whose masks each contain a positive voxel, the value of
  \<^verbatim>\<open>minimum\<close>, computed with the index over the second cloud and queried with the points
  of the first, is the brute-force minimum: the least Euclidean distance over all pairs of
  a point of the first cloud and a point of the second.
\<close>

theorem minimum_is_pairwise_minimum:
  assumes "positive_voxels (GetArrayFromImage image_1) \<noteq> {}"
    and "positive_voxels (GetArrayFromImage image_2) \<noteq> {}"
  shows "main image_1 image_2 =
     Inr (Finite (spec_pairwise_minimum (convert_to_world_coordinates image_1)
       (convert_to_world_coordinates image_2)))"
  using assms by (rule main_nonempty)

theorem minimum_is_pairwise_minimum_witness:
  "spec_pairwise_minimum
     (convert_to_world_coordinates (synthetic_image (1, 1, 2) [(0, 0, 0)]))
     (convert_to_world_coordinates (synthetic_image (1, 1, 2) [(0, 0, 1)])) = 1"
proof -
  have "positive_voxels (GetArrayFromImage (synthetic_image (1, 1, 2) [(0, 0, 0)])) \<noteq> {}"
    by (rule positive_voxels_synthetic_nonempty [of 0 0 0]) simp_all
  moreover have "positive_voxels (GetArrayFromImage (synthetic_image (1, 1, 2) [(0, 0, 1)])) \<noteq> {}"
    by (rule positive_voxels_synthetic_nonempty [of 0 0 1]) simp_all
  ultimately have "main (synthetic_image (1, 1, 2) [(0, 0, 0)]) (synthetic_image (1, 1, 2) [(0, 0, 1)])
      = Inr (Finite (spec_pairwise_minimum
          (convert_to_world_coordinates (synthetic_image (1, 1, 2) [(0, 0, 0)]))
          (convert_to_world_coordinates (synthetic_image (1, 1, 2) [(0, 0, 1)]))))"
    by (rule minimum_is_pairwise_minimum)
  then show ?thesis by (simp only: main_synthetic_0_1 sum.inject distance.inject)
qed

text \<open>
  Claim C5. For every pair of images whose masks each contain a positive voxel, the result
  is symmetric: with the two images swapped, so that the index is built over the other
  cloud, \<^verbatim>\<open>minimum\<close> has the same value.
\<close>

theorem minimum_symmetric:
  assumes "positive_voxels (GetArrayFromImage image_1) \<noteq> {}"
    and "positive_voxels (GetArrayFromImage image_2) \<noteq> {}"
  shows "main image_1 image_2 = main image_2 image_1"
  using assms by (simp add: main_nonempty spec_pairwise_minimum_commute)

theorem minimum_symmetric_witness:
  "main (synthetic_image (1, 1, 2) [(0, 0, 1)]) (synthetic_image (1, 1, 2) [(0, 0, 0)])
     = Inr (Finite 1)"
proof -
  have "positive_voxels (GetArrayFromImage (synthetic_image (1, 1, 2) [(0, 0, 0)])) \<noteq> {}"
    by (rule positive_voxels_synthetic_nonempty [of 0 0 0]) simp_all
  moreover have "positive_voxels (GetArrayFromImage (synthetic_image (1, 1, 2) [(0, 0, 1)])) \<noteq> {}"
    by (rule positive_voxels_synthetic_nonempty [of 0 0 1]) simp_all
  ultimately have "main (synthetic_image (1, 1, 2) [(0, 0, 0)]) (synthetic_image (1, 1, 2) [(0, 0, 1)])
      = main (synthetic_image (1, 1, 2) [(0, 0, 1)]) (synthetic_image (1, 1, 2) [(0, 0, 0)])"
    by (rule minimum_symmetric)
  then show ?thesis by (simp only: main_synthetic_0_1)
qed

text \<open>
  Claim C8. When the same image, with a positive voxel in its mask, is used as both inputs,
  \<^verbatim>\<open>minimum\<close> is exactly 0.
\<close>

theorem identical_masks_minimum_zero:
  assumes "positive_voxels (GetArrayFromImage img) \<noteq> {}"
  shows "main img img = Inr (Finite 0)"
  using assms by (simp add: main_nonempty spec_pairwise_minimum_self convert_Nil_iff)

theorem identical_masks_minimum_zero_witness:
  "main (synthetic_image (1, 1, 2) [(0, 0, 0), (0, 0, 1)])
     (synthetic_image (1, 1, 2) [(0, 0, 0), (0, 0, 1)]) = Inr (Finite 0)"
proof -
  have "positive_voxels (GetArrayFromImage (synthetic_image (1, 1, 2) [(0, 0, 0), (0, 0, 1)])) \<noteq> {}"
    by (rule positive_voxels_synthetic_nonempty [of 0 0 0]) simp_all
  then show ?thesis by (rule identical_masks_minimum_zero)
qed

text \<open>
  Claim C9. For every pair of images whose masks each contain a positive voxel,
  \<^verbatim>\<open>minimum\<close> returns a distance that is not negative.
\<close>

theorem minimum_nonnegative:
  assumes "positive_voxels (GetArrayFromImage image_1) \<noteq> {}"
    and "positive_voxels (GetArrayFromImage image_2) \<noteq> {}"
  shows "\<exists>d. main image_1 image_2 = Inr (Finite d) \<and> 0 \<le> d"
  using assms
  by (simp add: main_nonempty spec_pairwise_minimum_nonneg convert_Nil_iff)

theorem minimum_nonnegative_witness:
  "\<exists>d. main (synthetic_image (1, 1, 2) [(0, 0, 0)]) (synthetic_image (1, 1, 2) [(0, 0, 1)])
     = Inr (Finite d) \<and> 0 \<le> d"
proof -
  have "positive_voxels (GetArrayFromImage (synthetic_image (1, 1, 2) [(0, 0, 0)])) \<noteq> {}"
    by (rule positive_voxels_synthetic_nonempty [of 0 0 0]) simp_all
  moreover have "positive_voxels (GetArrayFromImage (synthetic_image (1, 1, 2) [(0, 0, 1)])) \<noteq> {}"
    by (rule positive_voxels_synthetic_nonempty [of 0 0 1]) simp_all
  ultimately show ?thesis by (rule minimum_nonnegative)
qed

text \<open>
  Claim C10. The minimum does not increase under mask growth: for every pair of images
  whose masks each contain a positive voxel, making further voxels positive in either image
  or in both, with every positive voxel kept positive and the geometry unchanged, gives a
  value of \<^verbatim>\<open>minimum\<close> that is at most the value before.
\<close>

theorem minimum_antimono_mask_growth:
  assumes "positive_voxels (GetArrayFromImage image_1) \<noteq> {}"
    and "positive_voxels (GetArrayFromImage image_2) \<noteq> {}"
    and "mask_grows image_1 image_1'"
    and "mask_grows image_2 image_2'"
  shows "\<exists>d d'. main image_1 image_2 = Inr (Finite d) \<and>
     main image_1' image_2' = Inr (Finite d') \<and> d' \<le> d"
proof -
  have "positive_voxels (GetArrayFromImage image_1') \<noteq> {}"
    and "positive_voxels (GetArrayFromImage image_2') \<noteq> {}"
    using assms by (auto simp: mask_grows_def)
  moreover have "spec_pairwise_minimum (convert_to_world_coordinates image_1')
      (convert_to_world_coordinates image_2')
    \<le> spec_pairwise_minimum (convert_to_world_coordinates image_1)
      (convert_to_world_coordinates image_2)"
    using assms by (intro spec_pairwise_minimum_antimono mask_grows_subset)
      (simp_all add: convert_Nil_iff)
  ultimately show ?thesis
    using assms(1,2) by (simp add: main_nonempty)
qed

theorem minimum_antimono_mask_growth_witness:
  "\<exists>d d'. main (synthetic_image (1, 1, 2) [(0, 0, 0)]) (synthetic_image (1, 1, 2) [(0, 0, 1)])
       = Inr (Finite d) \<and>
     main (synthetic_image (1, 1, 2) [(0, 0, 0), (0, 0, 1)]) (synthetic_image (1, 1, 2) [(0, 0, 1)])
       = Inr (Finite d') \<and> d' \<le> d"
proof -
  have "positive_voxels (GetArrayFromImage (synthetic_image (1, 1, 2) [(0, 0, 0)])) \<noteq> {}"
    by (rule positive_voxels_synthetic_nonempty [of 0 0 0]) simp_all
  moreover have "positive_voxels (GetArrayFromImage (synthetic_image (1, 1, 2) [(0, 0, 1)])) \<noteq> {}"
    by (rule positive_voxels_synthetic_nonempty [of 0 0 1]) simp_all
  moreover have "mask_grows (synthetic_image (1, 1, 2) [(0, 0, 0)])
      (synthetic_image (1, 1, 2) [(0, 0, 0), (0, 0, 1)])"
    unfolding mask_grows_def positive_voxels_synthetic
    by (auto simp: synthetic_image_def synthetic_mask_def)
  moreover have "mask_grows (synthetic_image (1, 1, 2) [(0, 0, 1)])
      (synthetic_image (1, 1, 2) [(0, 0, 1)])"
    by (simp add: mask_grows_def)
  ultimately show ?thesis by (rule minimum_antimono_mask_growth)
qed

text \<open>
  Claim C4, amended. If the first point cloud is empty, reading \<^verbatim>\<open>minimum\<close> raises
  \<^verbatim>\<open>ValueError\<close>; if only the second point cloud is empty, reading \<^verbatim>\<open>minimum\<close> returns
  \<^verbatim>\<open>inf\<close> and raises nothing. In neither case is a finite distance returned, and the empty
  input has no case of its own: the result is always the \<^verbatim>\<open>min\<close> of what the query
  returns.
\<close>

theorem empty_cloud_minimum:
  assumes "positive_voxels (GetArrayFromImage image_1) = {} \<or>
      positive_voxels (GetArrayFromImage image_2) = {}"
  shows "(\<forall>d. main image_1 image_2 \<noteq> Inr (Finite d))
     \<and> (positive_voxels (GetArrayFromImage image_1) = {} \<longrightarrow>
          main image_1 image_2 = Inl ValueError)
     \<and> (positive_voxels (GetArrayFromImage image_1) \<noteq> {} \<longrightarrow>
          main image_1 image_2 = Inr Infinity)
     \<and> main image_1 image_2 =
          ndarray_min (query (cKDTree (convert_to_world_coordinates image_2))
            (convert_to_world_coordinates image_1))"
proof -
  have same: "main image_1 image_2 =
      ndarray_min (query (cKDTree (convert_to_world_coordinates image_2))
        (convert_to_world_coordinates image_1))"
    by (simp add: main_eq cKDTree_def)
  have "(\<forall>d. main image_1 image_2 \<noteq> Inr (Finite d))
     \<and> (positive_voxels (GetArrayFromImage image_1) = {} \<longrightarrow>
          main image_1 image_2 = Inl ValueError)
     \<and> (positive_voxels (GetArrayFromImage image_1) \<noteq> {} \<longrightarrow>
          main image_1 image_2 = Inr Infinity)"
  proof (cases "positive_voxels (GetArrayFromImage image_1) = {}")
    case True
    then show ?thesis by (simp add: main_first_empty)
  next
    case False
    with assms have "positive_voxels (GetArrayFromImage image_2) = {}" by simp
    with False show ?thesis by (simp add: main_second_empty)
  qed
  with same show ?thesis by blast
qed

theorem empty_cloud_minimum_witness:
  "main (synthetic_image (1, 1, 2) []) (synthetic_image (1, 1, 2) [(0, 0, 1)]) = Inl ValueError
   \<and> main (synthetic_image (1, 1, 2) [(0, 0, 0)]) (synthetic_image (1, 1, 2) []) = Inr Infinity"
proof -
  have e: "positive_voxels (GetArrayFromImage (synthetic_image (1, 1, 2) [])) = {}"
    by (simp add: positive_voxels_synthetic)
  have a: "positive_voxels (GetArrayFromImage (synthetic_image (1, 1, 2) [(0, 0, 0)])) \<noteq> {}"
    by (rule positive_voxels_synthetic_nonempty [of 0 0 0]) simp_all
  from e empty_cloud_minimum
    [of "synthetic_image (1, 1, 2) []" "synthetic_image (1, 1, 2) [(0, 0, 1)]"]
  have "main (synthetic_image (1, 1, 2) []) (synthetic_image (1, 1, 2) [(0, 0, 1)])
      = Inl ValueError"
    by blast
  moreover from e a empty_cloud_minimum
    [of "synthetic_image (1, 1, 2) [(0, 0, 0)]" "synthetic_image (1, 1, 2) []"]
  have "main (synthetic_image (1, 1, 2) [(0, 0, 0)]) (synthetic_image (1, 1, 2) [])
      = Inr Infinity"
    by blast
  ultimately show ?thesis by simp
qed

text \<open>
  Claim C4 as stated fails: with a positive voxel in the first mask and none in the second,
  nothing raises and \<^verbatim>\<open>minimum\<close> returns a value, \<^verbatim>\<open>inf\<close>.
\<close>

theorem empty_second_cloud_returns_infinity:
  "positive_voxels (GetArrayFromImage (synthetic_image (1, 1, 2) [])) = {}
   \<and> main (synthetic_image (1, 1, 2) [(0, 0, 0)]) (synthetic_image (1, 1, 2) []) = Inr Infinity"
  by (simp add: positive_voxels_synthetic main_eq convert_synthetic_1_1_2 query_def nearest_def
      ndarray_min_def)

subsection \<open>Memoization\<close>

lemma run_Nil: "run s [] = s"
  by (simp add: run_def)

lemma run_Cons: "run s (e # evs) = run (step s e) evs"
  by (simp add: run_def)



lemma minimum_length: "length (objects (snd (minimum j s))) = length (objects s)"
  by (auto simp: minimum_def compute_distances_def Let_def
      split: option.splits sum.splits prod.splits)

lemma minimum_other_object:
  assumes "i \<noteq> j"
  shows "objects (snd (minimum j s)) ! i = objects s ! i"
  using assms
  by (auto simp: minimum_def compute_distances_def Let_def
      split: option.splits sum.splits prod.splits)

lemma minimum_other_counters:
  assumes "i \<noteq> j"
  shows "computed_distances (snd (minimum j s)) i = computed_distances s i"
    and "computed_minimum (snd (minimum j s)) i = computed_minimum s i"
  using assms
  by (auto simp: minimum_def compute_distances_def Let_def
      split: option.splits sum.splits prod.splits)

lemma minimum_other_cache:
  assumes "i \<noteq> j" and "cache_get (compute_distances_cache s) i = None"
  shows "cache_get (compute_distances_cache (snd (minimum j s))) i = None"
  using assms
  by (auto simp: minimum_def compute_distances_def Let_def cache_get_def
      split: option.splits sum.splits prod.splits if_splits)

lemma step_not_accessed:
  assumes "not_accessed i s" and "e \<noteq> Access i"
  shows "not_accessed i (step s e)"
proof (cases e)
  case (New a b)
  with assms show ?thesis
    by (auto simp: not_accessed_def Distances_init_def nth_append)
next
  case (Access j)
  with assms have "i \<noteq> j" by auto
  with assms Access show ?thesis
    by (auto simp: not_accessed_def minimum_length minimum_other_object
        minimum_other_counters minimum_other_cache)
next
  case (SetImg1 j img)
  with assms show ?thesis
    by (auto simp: not_accessed_def nth_list_update)
next
  case (SetImg2 j img)
  with assms show ?thesis
    by (auto simp: not_accessed_def nth_list_update)
qed

lemma run_not_accessed:
  assumes "not_accessed i s" and "Access i \<notin> set evs"
  shows "not_accessed i (run s evs)"
  using assms
proof (induction evs arbitrary: s)
  case Nil
  then show ?case by (simp add: run_Nil)
next
  case (Cons e evs)
  then have "not_accessed i (step s e)"
    by (intro step_not_accessed) auto
  with Cons show ?case by (simp add: run_Cons)
qed











text \<open>
  The first read of \<^verbatim>\<open>minimum\<close> on an instance computes it from the images the instance
  has at that moment.
\<close>

lemma first_access_value:
  assumes "not_accessed i s" and "i < length (objects s)"
  shows "fst (minimum i s) = ndarray_min (compute_distances_body (objects s ! i))"
  using assms
  by (auto simp: not_accessed_def minimum_def compute_distances_def Let_def
      split: option.splits sum.splits prod.splits)




end
